theory Spec2Isabelle
  imports
    Complex_Main
    "HOL-Library.Char_ord"
    "HOL-Library.List_Lexorder"
    "HOL-Library.Product_Lexorder"
begin

section \<open>The dashboard of \<^verbatim>\<open>UIS_app.py\<close>: data loading, navigation and queries\<close>

text \<open>
  The program is a Streamlit script. It reads two CSV files into pandas tables, joins
  them once (\<^verbatim>\<open>load_data\<close>), keeps the current page in the session state and, on
  every run of the script, draws the page that the state names. The tables are modelled
  as lists of records (a pandas table is an ordered sequence of rows), the pandas
  operations the script applies to them as list functions, the session state and the
  module-level table \<^verbatim>\<open>label_data\<close> as an explicit state that every page function takes
  and returns, Python exceptions as values, and what the user did in the browser since
  the last run (the button pressed, the widget selections) as an input of the run.

  Cells are taken to be present (no missing value in the CSV files); the only missing
  cells of the model are those the left join creates. Numbers of the \<^verbatim>\<open>value\<close> column
  are exact rationals: rounding of binary floating point is outside the model.
\<close>

subsection \<open>String normalisation: \<^verbatim>\<open>.str.upper().str.strip()\<close>\<close>

text \<open>
  A \<^typ>\<open>string\<close> is a list of bytes. \<^verbatim>\<open>str.upper\<close> and \<^verbatim>\<open>str.strip\<close> are modelled on
  ASCII: the letters a to z are mapped to A to Z, every other byte is kept, and the
  white space that is stripped is what \<^verbatim>\<open>str.isspace\<close> accepts below 128 (tab, line
  feed, vertical tab, form feed, carriage return, the four separators 28 to 31 and the
  blank). No theorem below depends on which function the normalisation is.
\<close>

definition upper_char :: "char \<Rightarrow> char" where
  "upper_char c =
     (let n = (of_char c :: nat) in if 97 \<le> n \<and> n \<le> 122 then char_of (n - 32) else c)"

definition upper :: "string \<Rightarrow> string" where
  "upper s = map upper_char s"

definition isspace :: "char \<Rightarrow> bool" where
  "isspace c = (let n = (of_char c :: nat) in (9 \<le> n \<and> n \<le> 13) \<or> (28 \<le> n \<and> n \<le> 32))"

definition strip :: "string \<Rightarrow> string" where
  "strip s = rev (dropWhile isspace (rev (dropWhile isspace s)))"

subsection \<open>Rows of the three tables\<close>

text \<open>
  A row of \<^verbatim>\<open>UNESCO_edu_data.csv\<close> as \<^verbatim>\<open>pd.read_csv\<close> returns it. The fields that the
  merged table keeps under the same column name carry the prefix \<open>obs\<close> here, since a
  field name denotes one selector.
\<close>

record obs_row =
  obs_country_id :: string
  indicator_id :: string
  indicator_desc :: string
  obs_year :: int
  obs_value :: rat

text \<open>
  A row of \<^verbatim>\<open>SDG_METADATA.csv\<close>: the key, the English label, and the remaining
  descriptive columns in file order.
\<close>

record meta_row =
  meta_INDICATOR_ID :: string
  meta_INDICATOR_LABEL_EN :: string
  meta_other :: "string list"

text \<open>
  A row of \<^verbatim>\<open>data\<close> after lines 53 to 55 (the description dropped, the key renamed and
  normalised); the column \<^verbatim>\<open>value\<close> is the field \<open>val\<close>. A row of \<^verbatim>\<open>label_data\<close> extends
  it by the metadata columns, which are missing (\<open>None\<close>, pandas' NaN) where the left
  join found no partner.
\<close>

record data_row =
  country_id :: string
  INDICATOR_ID :: string
  year :: int
  val :: rat

record label_row = data_row +
  INDICATOR_LABEL_EN :: "string option"
  other_columns :: "string list option"

subsection \<open>\<^verbatim>\<open>load_data\<close> (lines 47 to 59)\<close>

text \<open>
  Lines 53 and 54: \<^verbatim>\<open>data.drop('indicator_desc', ...)\<close> and the renaming of
  \<^verbatim>\<open>indicator_id\<close> to \<^verbatim>\<open>INDICATOR_ID\<close>.
\<close>

definition drop_and_rename :: "obs_row \<Rightarrow> data_row" where
  "drop_and_rename r =
     \<lparr>country_id = obs_country_id r, INDICATOR_ID = indicator_id r,
      year = obs_year r, val = obs_value r\<rparr>"

text \<open>Line 55: \<^verbatim>\<open>data['INDICATOR_ID'] = data['INDICATOR_ID'].str.upper().str.strip()\<close>.\<close>

definition normalize_key :: "data_row \<Rightarrow> data_row" where
  "normalize_key d = d\<lparr>INDICATOR_ID := strip (upper (INDICATOR_ID d))\<rparr>"

text \<open>
  \<^verbatim>\<open>pd.merge(data, metadata, on="INDICATOR_ID", how="left")\<close>: the left rows in their
  order; a left row is paired with every right row of the same key, in the order of the
  right table, and stands once with missing right columns when there is none. Only the
  left key is normalised: the right key is compared as it is in the file.
\<close>

definition joined :: "data_row \<Rightarrow> meta_row \<Rightarrow> label_row" where
  "joined d m =
     \<lparr>country_id = country_id d, INDICATOR_ID = INDICATOR_ID d, year = year d, val = val d,
      INDICATOR_LABEL_EN = Some (meta_INDICATOR_LABEL_EN m),
      other_columns = Some (meta_other m)\<rparr>"

definition unmatched :: "data_row \<Rightarrow> label_row" where
  "unmatched d =
     \<lparr>country_id = country_id d, INDICATOR_ID = INDICATOR_ID d, year = year d, val = val d,
      INDICATOR_LABEL_EN = None, other_columns = None\<rparr>"

definition partners :: "meta_row list \<Rightarrow> data_row \<Rightarrow> meta_row list" where
  "partners metadata d = filter (\<lambda>m. meta_INDICATOR_ID m = INDICATOR_ID d) metadata"

definition merge_row :: "meta_row list \<Rightarrow> data_row \<Rightarrow> label_row list" where
  "merge_row metadata d =
     (case partners metadata d of
        [] \<Rightarrow> [unmatched d]
      | m # ms \<Rightarrow> map (joined d) (m # ms))"

definition merge_left :: "data_row list \<Rightarrow> meta_row list \<Rightarrow> label_row list" where
  "merge_left data metadata = concat (map (merge_row metadata) data)"

text \<open>
  The two tables read at lines 49 and 50 are the parameters; a file that is missing or
  cannot be parsed ends the script before \<^verbatim>\<open>load_data\<close> returns and is not modelled.
\<close>

definition load_data :: "obs_row list \<Rightarrow> meta_row list \<Rightarrow> label_row list" where
  "load_data data metadata =
     merge_left (map (normalize_key \<circ> drop_and_rename) data) metadata"

text \<open>The left columns of a merged row.\<close>

definition left_columns :: "label_row \<Rightarrow> data_row" where
  "left_columns r =
     \<lparr>country_id = country_id r, INDICATOR_ID = INDICATOR_ID r, year = year r, val = val r\<rparr>"

subsection \<open>The pandas operations of the queries\<close>

text \<open>
  \<^verbatim>\<open>drop_duplicates()\<close> keeps the first of equal rows (\<^verbatim>\<open>keep='first'\<close>) and the order
  of the rows it keeps.
\<close>

fun drop_duplicates :: "'a list \<Rightarrow> 'a list" where
  "drop_duplicates [] = []"
| "drop_duplicates (x # xs) = x # drop_duplicates (filter (\<lambda>y. y \<noteq> x) xs)"

text \<open>
  \<^verbatim>\<open>sort_values(column)\<close> orders the rows by the column, ascending. Strings compare as
  in Python: byte by byte, a proper prefix first. The order in which pandas leaves rows
  of equal key is not fixed by its default algorithm; the model keeps their order, and
  no theorem below depends on it.
\<close>

definition sort_values :: "('a \<Rightarrow> 'k::linorder) \<Rightarrow> 'a list \<Rightarrow> 'a list" where
  "sort_values column rows = sort_key column rows"

text \<open>
  Line 91, \<^verbatim>\<open>df = label_data[label_data['country_id'] == country_code]\<close>, the spec's
  \<^verbatim>\<open>filterByCountry\<close>; lines 92 and 95, the distinct pairs of id and label sorted by id,
  and the ids offered to the user; line 114, the rows of the chosen indicators.
\<close>

definition df_country :: "label_row list \<Rightarrow> string \<Rightarrow> label_row list" where
  "df_country table country_code = filter (\<lambda>r. country_id r = country_code) table"

definition unique_indicators :: "label_row list \<Rightarrow> (string \<times> string option) list" where
  "unique_indicators df =
     sort_values fst (drop_duplicates (map (\<lambda>r. (INDICATOR_ID r, INDICATOR_LABEL_EN r)) df))"

definition indicator_options :: "label_row list \<Rightarrow> string list" where
  "indicator_options df = map fst (unique_indicators df)"

definition df_filtered :: "label_row list \<Rightarrow> string list \<Rightarrow> label_row list" where
  "df_filtered df selected_indicators =
     filter (\<lambda>r. INDICATOR_ID r \<in> set selected_indicators) df"

text \<open>
  Line 209, \<^verbatim>\<open>label_data[label_data["INDICATOR_ID"] == selected_indicator].drop_duplicates()\<close>,
  the spec's \<^verbatim>\<open>filterByIndicator\<close>. The comparison is with the column as
  \<^verbatim>\<open>load_data\<close> left it; the given id is compared as it is.
\<close>

definition df_indicator :: "label_row list \<Rightarrow> string \<Rightarrow> label_row list" where
  "df_indicator table selected_indicator =
     drop_duplicates (filter (\<lambda>r. INDICATOR_ID r = selected_indicator) table)"

text \<open>
  Line 273, \<^verbatim>\<open>df.groupby(["year", "country_id"])["value"].mean().reset_index()\<close>: one
  row per pair of year and country that occurs, the pairs in ascending order (groupby
  sorts its keys), with the mean of the values of the rows of the pair. The mean is
  only taken of the rows of a key that occurs, so that the list is never empty.
\<close>

definition mean :: "rat list \<Rightarrow> rat" where
  "mean xs = sum_list xs / of_nat (length xs)"

definition group_key :: "label_row \<Rightarrow> int \<times> string" where
  "group_key r = (year r, country_id r)"

definition group_keys :: "label_row list \<Rightarrow> (int \<times> string) list" where
  "group_keys df = sort (drop_duplicates (map group_key df))"

definition group_values :: "label_row list \<Rightarrow> int \<times> string \<Rightarrow> rat list" where
  "group_values df k = map val (filter (\<lambda>r. group_key r = k) df)"

definition groupby_mean :: "label_row list \<Rightarrow> (int \<times> string \<times> rat) list" where
  "groupby_mean df = map (\<lambda>k. (fst k, snd k, mean (group_values df k))) (group_keys df)"

subsection \<open>State, inputs and output of one run of the script\<close>

text \<open>
  The state that outlives a statement: the module-level table of line 62 and the
  \<^verbatim>\<open>page\<close> entry of \<^verbatim>\<open>st.session_state\<close> (\<open>None\<close> while the key is not set). The table is
  part of the state so that a write to it by a page function would show.
\<close>

record app_state =
  label_data :: "label_row list"
  page :: "string option"

text \<open>
  What the widgets return in a run: the label of the button whose press caused the run,
  if any; the selection of the multiselect; the selection of the selectbox.
\<close>

record inputs =
  clicked :: "string option"
  multiselect_value :: "string list"
  selectbox_value :: string

datatype py_error = KeyError string | IndexError | AttributeError string

text \<open>A chart is the table handed to plotly and the kind of the chart; styling is left out.\<close>

datatype chart =
  LineChart "label_row list"
| AreaChart "label_row list"
| BarChart "(int \<times> string \<times> rat) list"

datatype element =
  Title string
| Button string
| Warning string
| Markdown string
| Multiselect "string list"
| Selectbox "string list"
| Tabs "string list"
| PlotlyChart chart

text \<open>
  A page function returns the state it leaves and either the exception that ended it or
  what it drew. An exception does not undo an assignment to the session state made
  before it.
\<close>

type_synonym 'a run = "app_state \<times> (py_error + 'a)"

text \<open>
  \<^verbatim>\<open>st.button(label)\<close> is true in the run that the press of that button caused, and
  in no other.
\<close>

definition st_button :: "inputs \<Rightarrow> string \<Rightarrow> bool" where
  "st_button inp label = (clicked inp = Some label)"

subsection \<open>Navigation (lines 67 to 80, 146 to 170)\<close>

definition PARENTS :: "(string \<times> string) list" where
  "PARENTS =
     [(''Nepal'', ''individual''),
      (''Estonia'', ''individual''),
      (''Sierra Leone'', ''individual''),
      (''USA'', ''individual''),
      (''individual'', ''home''),
      (''cross'', ''home'')]"

text \<open>
  The assignment \<^verbatim>\<open>st.session_state.page = <page>\<close> of lines 152, 155, 163, 165, 168 and
  170, which the spec calls \<^verbatim>\<open>goto\<close>. It is an assignment: nothing is checked.
\<close>

definition goto :: "string \<Rightarrow> app_state \<Rightarrow> app_state" where
  "goto p s = s\<lparr>page := Some p\<rparr>"

text \<open>The pages that \<^verbatim>\<open>main\<close> knows how to draw (lines 323 to 336).\<close>

definition known_pages :: "string list" where
  "known_pages =
     [''home'', ''individual'', ''cross'', ''Nepal'', ''Estonia'', ''Sierra Leone'', ''USA'']"

text \<open>
  \<^verbatim>\<open>show_back_button\<close>: away from home the button is drawn, and a press assigns the
  parent of the page; \<^verbatim>\<open>PARENTS[...]\<close> raises \<^verbatim>\<open>KeyError\<close> for a page without an entry.
\<close>

definition show_back_button :: "inputs \<Rightarrow> app_state \<Rightarrow> element list run" where
  "show_back_button inp s =
     (case page s of
        None \<Rightarrow> (s, Inl (AttributeError ''page''))
      | Some p \<Rightarrow>
          if p \<noteq> ''home'' then
            if st_button inp ''Go Back'' then
              (case map_of PARENTS p of
                 None \<Rightarrow> (s, Inl (KeyError p))
               | Some parent \<Rightarrow> (s\<lparr>page := Some parent\<rparr>, Inr [Button ''Go Back'']))
            else (s, Inr [Button ''Go Back''])
          else (s, Inr []))"

definition show_home :: "inputs \<Rightarrow> app_state \<Rightarrow> element list run" where
  "show_home inp s =
     (let s1 = (if st_button inp ''Individual Analysis'' then goto ''individual'' s else s);
          s2 = (if st_button inp ''Cross-country Analysis'' then goto ''cross'' s1 else s1)
      in (s2, Inr [Title ''Home'', Button ''Individual Analysis'',
                   Button ''Cross-country Analysis'']))"

definition show_individual :: "inputs \<Rightarrow> app_state \<Rightarrow> element list run" where
  "show_individual inp s =
     (let s1 = (if st_button inp ''Nepal'' then goto ''Nepal'' s else s);
          s2 = (if st_button inp ''USA'' then goto ''USA'' s1 else s1);
          s3 = (if st_button inp ''Estonia'' then goto ''Estonia'' s2 else s2);
          s4 = (if st_button inp ''Sierra Leone'' then goto ''Sierra Leone'' s3 else s3)
      in (s4, Inr [Title ''Individual Analysis'', Button ''Nepal'', Button ''USA'',
                   Button ''Estonia'', Button ''Sierra Leone'']))"

subsection \<open>The country pages (lines 85 to 141, 291 to 313)\<close>

text \<open>
  \<^verbatim>\<open>format_indicator\<close>: the label of the first row of \<^verbatim>\<open>unique_indicators\<close> with the given
  id; \<^verbatim>\<open>.iloc[0]\<close> raises \<^verbatim>\<open>IndexError\<close> when there is no such row, and a missing label is
  printed as \<^verbatim>\<open>nan\<close>.
\<close>

definition format_indicator :: "(string \<times> string option) list \<Rightarrow> string \<Rightarrow> py_error + string" where
  "format_indicator uniq ind =
     (case filter (\<lambda>p. fst p = ind) uniq of
        [] \<Rightarrow> Inl IndexError
      | p # _ \<Rightarrow> Inr (ind @ '' - '' @ (case snd p of None \<Rightarrow> ''nan'' | Some label \<Rightarrow> label)))"

text \<open>
  \<^verbatim>\<open>st.multiselect\<close> applies \<^verbatim>\<open>format_func\<close> to every option, in order, to label it; an
  exception in it ends the run. It then returns the user's selection.
\<close>

fun format_options :: "(string \<Rightarrow> py_error + string) \<Rightarrow> string list \<Rightarrow> py_error + string list" where
  "format_options format_func [] = Inr []"
| "format_options format_func (x # xs) =
     (case format_func x of
        Inl e \<Rightarrow> Inl e
      | Inr l \<Rightarrow>
          (case format_options format_func xs of
             Inl e \<Rightarrow> Inl e
           | Inr ls \<Rightarrow> Inr (l # ls)))"

definition create_line_chart_with_selection ::
  "string \<Rightarrow> inputs \<Rightarrow> app_state \<Rightarrow> (element list \<times> chart option) run" where
  "create_line_chart_with_selection country_code inp s =
     (let df = df_country (label_data s) country_code;
          uniq = unique_indicators df
      in case format_options (format_indicator uniq) (indicator_options df) of
           Inl e \<Rightarrow> (s, Inl e)
         | Inr labels \<Rightarrow>
             (let selected_indicators = multiselect_value inp
              in if selected_indicators = [] then
                   (s, Inr ([Multiselect labels,
                             Warning ''Please select at least one indicator.''], None))
                 else
                   (s, Inr ([Multiselect labels],
                            Some (LineChart (df_filtered df selected_indicators))))))"

text \<open>
  The four country pages have the same body but for the title and the country code:
  the title, the selection, and the chart when there is one.
\<close>

definition country_page :: "string \<Rightarrow> string \<Rightarrow> inputs \<Rightarrow> app_state \<Rightarrow> element list run" where
  "country_page title country_code inp s =
     (case create_line_chart_with_selection country_code inp s of
        (s', Inl e) \<Rightarrow> (s', Inl e)
      | (s', Inr (drawn, fig)) \<Rightarrow>
          (s', Inr ([Title title] @ drawn @
                    (case fig of None \<Rightarrow> [] | Some f \<Rightarrow> [PlotlyChart f]))))"

definition show_nepal :: "inputs \<Rightarrow> app_state \<Rightarrow> element list run" where
  "show_nepal = country_page ''Nepal Analysis'' ''NPL''"

definition show_estonia :: "inputs \<Rightarrow> app_state \<Rightarrow> element list run" where
  "show_estonia = country_page ''Estonia Analysis'' ''EST''"

definition show_sierra_leone :: "inputs \<Rightarrow> app_state \<Rightarrow> element list run" where
  "show_sierra_leone = country_page ''Sierra Leone Analysis'' ''SLE''"

definition show_usa :: "inputs \<Rightarrow> app_state \<Rightarrow> element list run" where
  "show_usa = country_page ''USA Analysis'' ''USA''"

subsection \<open>The cross-country page (lines 172 to 286)\<close>

definition indicators :: "(string \<times> string) list" where
  "indicators =
     [(''EA.3T8.AG25T99'', ''Educational attainment rate, completed upper secondary education or higher, population 25+ years, both sexes (%)''),
      (''XGOVEXP.IMF'', ''Expenditure on education as a percentage of total government expenditure (%)''),
      (''XGDP.FSGOV'', ''Government expenditure on education as a percentage of GDP (%)''),
      (''XUNIT.PPPCONST.2T3.FSGOV.FFNTR'', ''Initial government funding per secondary student, constant PPP$''),
      (''NER.02.CP'', ''Net enrolment rate, pre-primary, both sexes (%)''),
      (''ROFST.1T3.CP'', ''Out-of-school rate for children, adolescents and youth of primary, lower secondary and upper secondary school age, both sexes (%)''),
      (''ROFST.1T3.F.CP'', ''Out-of-school rate for children, adolescents and youth of primary, lower secondary and upper secondary school age, female (%)''),
      (''ROFST.1T3.M.CP'', ''Out-of-school rate for children, adolescents and youth of primary, lower secondary and upper secondary school age, male (%)''),
      (''ROFST.H.3'', ''Out-of-school rate for youth of upper secondary school age, both sexes (household survey data) (%)''),
      (''ROFST.3.F.CP'', ''Out-of-school rate for youth of upper secondary school age, female (%)''),
      (''ROFST.3.M.CP'', ''Out-of-school rate for youth of upper secondary school age, male (%)''),
      (''SCHBSP.2.WELEC'', ''Proportion of lower secondary schools with access to electricity (%)''),
      (''SCHBSP.1.WCOMPUT'', ''Proportion of primary schools with access to computers for pedagogical purposes (%)''),
      (''SCHBSP.1.WELEC'', ''Proportion of primary schools with access to electricity (%)''),
      (''SCHBSP.2T3.WCOMPUT'', ''Proportion of secondary schools with access to computers for pedagogical purposes (%)''),
      (''SCHBSP.3.WELEC'', ''Proportion of upper secondary schools with access to electricity (%)'')]"

text \<open>
  The selectbox returns the user's choice; \<^verbatim>\<open>indicators[selected_indicator]\<close> at line 203
  raises \<^verbatim>\<open>KeyError\<close> for a value that is not a key. The three tabs draw the line and the
  area chart of \<^verbatim>\<open>df\<close> and the bar chart of \<^verbatim>\<open>df_bar\<close>.
\<close>

definition show_cross :: "inputs \<Rightarrow> app_state \<Rightarrow> element list run" where
  "show_cross inp s =
     (let selected_indicator = selectbox_value inp
      in case map_of indicators selected_indicator of
           None \<Rightarrow> (s, Inl (KeyError selected_indicator))
         | Some description \<Rightarrow>
             (let df = df_indicator (label_data s) selected_indicator;
                  df_bar = groupby_mean df
              in (s, Inr [Title ''Cross-country Analysis'',
                          Selectbox (map (\<lambda>p. fst p @ '' - '' @ snd p) indicators),
                          Markdown (''Displaying cross-country analysis for: **'' @
                                    description @ ''**''),
                          Markdown ''<br><br>'',
                          Tabs [''Line Chart'', ''Area Chart'', ''Bar Chart''],
                          PlotlyChart (LineChart df),
                          PlotlyChart (AreaChart df),
                          PlotlyChart (BarChart df_bar)])))"

subsection \<open>\<^verbatim>\<open>main\<close> (lines 318 to 336)\<close>

text \<open>
  The page is set to home when the key is missing; the back button runs first, and the
  page that the state then names is drawn. A page that no branch names draws nothing.
\<close>

definition main :: "inputs \<Rightarrow> app_state \<Rightarrow> element list run" where
  "main inp s0 =
     (let s1 = (if page s0 = None then s0\<lparr>page := Some ''home''\<rparr> else s0)
      in case show_back_button inp s1 of
           (s2, Inl e) \<Rightarrow> (s2, Inl e)
         | (s2, Inr back) \<Rightarrow>
             (case (if page s2 = Some ''home'' then show_home inp s2
                    else if page s2 = Some ''individual'' then show_individual inp s2
                    else if page s2 = Some ''cross'' then show_cross inp s2
                    else if page s2 = Some ''Nepal'' then show_nepal inp s2
                    else if page s2 = Some ''Estonia'' then show_estonia inp s2
                    else if page s2 = Some ''Sierra Leone'' then show_sierra_leone inp s2
                    else if page s2 = Some ''USA'' then show_usa inp s2
                    else (s2, Inr []))
              of (s3, Inl e) \<Rightarrow> (s3, Inl e)
               | (s3, Inr drawn) \<Rightarrow> (s3, Inr (back @ drawn))))"

subsection \<open>The pages of the application, and example tables\<close>

text \<open>
  A state is on a known page when its page is one of those that \<^verbatim>\<open>main\<close> draws.
\<close>

definition on_known_page :: "app_state \<Rightarrow> bool" where
  "on_known_page s = (case page s of None \<Rightarrow> False | Some p \<Rightarrow> p \<in> set known_pages)"

text \<open>
  Small tables for the examples below: four observations, the last one the first again
  but for its description, with ids in the spellings that line 55 normalises, and the
  metadata of one indicator; and three merged rows of one indicator and country.
\<close>

abbreviation example_data :: "obs_row list" where
  "example_data \<equiv>
     [\<lparr>obs_country_id = ''NPL'', indicator_id = '' ner.02.cp'', indicator_desc = ''text'',
       obs_year = 2010, obs_value = 10\<rparr>,
      \<lparr>obs_country_id = ''NPL'', indicator_id = ''XGDP.FSGOV'', indicator_desc = ''text'',
       obs_year = 2011, obs_value = 4\<rparr>,
      \<lparr>obs_country_id = ''USA'', indicator_id = ''NER.02.CP '', indicator_desc = ''text'',
       obs_year = 2010, obs_value = 20\<rparr>,
      \<lparr>obs_country_id = ''NPL'', indicator_id = '' ner.02.cp'', indicator_desc = ''other text'',
       obs_year = 2010, obs_value = 10\<rparr>]"

abbreviation example_metadata :: "meta_row list" where
  "example_metadata \<equiv>
     [\<lparr>meta_INDICATOR_ID = ''NER.02.CP'', meta_INDICATOR_LABEL_EN = ''Net enrolment rate'',
       meta_other = []\<rparr>]"


section \<open>The left join of \<^verbatim>\<open>load_data\<close>\<close>

lemma left_columns_joined: "left_columns (joined d m) = d"
  by (simp add: left_columns_def joined_def)

lemma left_columns_unmatched: "left_columns (unmatched d) = d"
  by (simp add: left_columns_def unmatched_def)


lemma length_merge_row_ge: "1 \<le> length (merge_row metadata d)"
  by (simp add: merge_row_def split: list.split)


lemma length_merge_left_ge: "length data \<le> length (merge_left data metadata)"
proof (induction data)
  case Nil
  show ?case by (simp add: merge_left_def)
next
  case (Cons d data)
  have "1 \<le> length (merge_row metadata d)" by (rule length_merge_row_ge)
  with Cons show ?case by (simp add: merge_left_def)
qed

lemma unique_key_partners:
  "distinct (map meta_INDICATOR_ID metadata) \<Longrightarrow> length (partners metadata d) \<le> 1"
proof (induction metadata)
  case Nil
  show ?case by (simp add: partners_def)
next
  case (Cons m metadata)
  show ?case
  proof (cases "meta_INDICATOR_ID m = INDICATOR_ID d")
    case True
    with Cons.prems have "INDICATOR_ID d \<notin> meta_INDICATOR_ID ` set metadata"
      by simp
    then have "\<forall>x \<in> set metadata. meta_INDICATOR_ID x \<noteq> INDICATOR_ID d"
      by (metis imageI)
    then have "filter (\<lambda>x. meta_INDICATOR_ID x = INDICATOR_ID d) metadata = []"
      by (simp add: filter_empty_conv)
    with True show ?thesis by (simp add: partners_def)
  next
    case False
    with Cons show ?thesis by (simp add: partners_def)
  qed
qed

lemma unique_key_merge_row:
  assumes "distinct (map meta_INDICATOR_ID metadata)"
  shows "\<exists>r. merge_row metadata d = [r] \<and> left_columns r = d"
proof (cases "partners metadata d")
  case Nil
  then show ?thesis by (simp add: merge_row_def left_columns_unmatched)
next
  case (Cons m ms)
  from unique_key_partners [OF assms, of d] Cons have "ms = []" by simp
  with Cons show ?thesis by (simp add: merge_row_def left_columns_joined)
qed

lemma unique_key_merge_left:
  assumes "distinct (map meta_INDICATOR_ID metadata)"
  shows "map left_columns (merge_left data metadata) = data"
proof (induction data)
  case Nil
  show ?case by (simp add: merge_left_def)
next
  case (Cons d data)
  from unique_key_merge_row [OF assms, of d]
  obtain r where "merge_row metadata d = [r]" and "left_columns r = d" by blast
  with Cons show ?case by (simp add: merge_left_def)
qed

lemma set_merge_row:
  "set (merge_row metadata d) =
     (if partners metadata d = [] then {unmatched d} else joined d ` set (partners metadata d))"
  by (simp add: merge_row_def split: list.split)

lemma set_partners:
  "set (partners metadata d) = {m \<in> set metadata. meta_INDICATOR_ID m = INDICATOR_ID d}"
  by (simp add: partners_def)

lemma partners_Nil_iff:
  "partners metadata d = [] \<longleftrightarrow> (\<forall>m \<in> set metadata. meta_INDICATOR_ID m \<noteq> INDICATOR_ID d)"
  by (simp add: partners_def filter_empty_conv)

lemma set_merge_left:
  "set (merge_left data metadata) = (\<Union>d \<in> set data. set (merge_row metadata d))"
  by (simp add: merge_left_def)

lemma set_load_data:
  "set (load_data data metadata) =
     (\<Union>row \<in> set data. set (merge_row metadata (normalize_key (drop_and_rename row))))"
  by (simp add: load_data_def set_merge_left)

lemma INDICATOR_ID_prepared:
  "INDICATOR_ID (normalize_key (drop_and_rename row)) = strip (upper (indicator_id row))"
  by (simp add: normalize_key_def drop_and_rename_def)



lemma merge_row_label:
  assumes "r \<in> set (merge_row metadata d)"
  shows "INDICATOR_ID r = INDICATOR_ID d \<and>
         (case INDICATOR_LABEL_EN r of
            Some l \<Rightarrow> \<exists>m \<in> set metadata. meta_INDICATOR_ID m = INDICATOR_ID d \<and> meta_INDICATOR_LABEL_EN m = l
          | None \<Rightarrow> \<forall>m \<in> set metadata. meta_INDICATOR_ID m \<noteq> INDICATOR_ID d)"
proof (cases "partners metadata d = []")
  case True
  with assms have "r = unmatched d" by (simp add: set_merge_row)
  with True show ?thesis by (simp add: unmatched_def partners_Nil_iff)
next
  case False
  with assms obtain m where "m \<in> set (partners metadata d)" and "r = joined d m"
    by (auto simp: set_merge_row)
  then show ?thesis by (auto simp: joined_def set_partners)
qed





lemma normalised_examples:
  "strip (upper '' ner.02.cp'') = ''NER.02.CP''"
  "strip (upper ''XGDP.FSGOV'') = ''XGDP.FSGOV''"
  "strip (upper ''NER.02.CP '') = ''NER.02.CP''"
  by code_simp+

text \<open>
  C1. The merged table never has fewer rows than the observation table, and it has
  exactly as many, with the left columns of its rows being the prepared observation
  rows in their order, when no two metadata rows share an \<^verbatim>\<open>INDICATOR_ID\<close>.
\<close>

theorem load_data_row_count:
  "length data \<le> length (load_data data metadata) \<and>
   (distinct (map meta_INDICATOR_ID metadata) \<longrightarrow>
      length (load_data data metadata) = length data \<and>
      map left_columns (load_data data metadata) = map (normalize_key \<circ> drop_and_rename) data)"
proof -
  let ?prepared = "map (normalize_key \<circ> drop_and_rename) data"
  have ge: "length data \<le> length (load_data data metadata)"
    using length_merge_left_ge [of ?prepared metadata] by (simp add: load_data_def)
  have eq: "map left_columns (load_data data metadata) = ?prepared"
    if "distinct (map meta_INDICATOR_ID metadata)"
    using unique_key_merge_left [OF that, of ?prepared] by (simp add: load_data_def)
  have len: "length (load_data data metadata) = length data"
    if "distinct (map meta_INDICATOR_ID metadata)"
  proof -
    have "length (map left_columns (load_data data metadata)) = length ?prepared"
      using eq [OF that] by simp
    then show ?thesis by simp
  qed
  from ge eq len show ?thesis by blast
qed

text \<open>
  An instance: two observations, one of them without metadata, and one metadata row.
\<close>

theorem load_data_row_count_witness:
  "distinct (map meta_INDICATOR_ID
      [\<lparr>meta_INDICATOR_ID = ''NER.02.CP'', meta_INDICATOR_LABEL_EN = ''Net enrolment rate'',
        meta_other = []\<rparr>]) \<and>
   length (load_data
      [\<lparr>obs_country_id = ''NPL'', indicator_id = '' ner.02.cp'', indicator_desc = ''d'',
        obs_year = 2010, obs_value = 10\<rparr>,
       \<lparr>obs_country_id = ''NPL'', indicator_id = ''XGDP.FSGOV'', indicator_desc = ''d'',
        obs_year = 2011, obs_value = 4\<rparr>]
      [\<lparr>meta_INDICATOR_ID = ''NER.02.CP'', meta_INDICATOR_LABEL_EN = ''Net enrolment rate'',
        meta_other = []\<rparr>]) = 2"
  using load_data_row_count
    [of "[\<lparr>obs_country_id = ''NPL'', indicator_id = '' ner.02.cp'', indicator_desc = ''d'',
           obs_year = 2010, obs_value = 10\<rparr>,
          \<lparr>obs_country_id = ''NPL'', indicator_id = ''XGDP.FSGOV'', indicator_desc = ''d'',
           obs_year = 2011, obs_value = 4\<rparr>]"
        "[\<lparr>meta_INDICATOR_ID = ''NER.02.CP'', meta_INDICATOR_LABEL_EN = ''Net enrolment rate'',
           meta_other = []\<rparr>]"]
  by simp

text \<open>
  Without the condition on the metadata the counts differ: one observation row and two
  metadata rows of its key give a merged table of two rows.
\<close>

theorem load_data_row_count_counterexample:
  "length (load_data
      [\<lparr>obs_country_id = ''NPL'', indicator_id = ''NER.02.CP'', indicator_desc = ''d'',
        obs_year = 2010, obs_value = 10\<rparr>]
      [\<lparr>meta_INDICATOR_ID = ''NER.02.CP'', meta_INDICATOR_LABEL_EN = ''Net enrolment rate'',
        meta_other = []\<rparr>,
       \<lparr>meta_INDICATOR_ID = ''NER.02.CP'', meta_INDICATOR_LABEL_EN = ''Net enrolment rate (%)'',
        meta_other = []\<rparr>])
   \<noteq> length
      [\<lparr>obs_country_id = ''NPL'', indicator_id = ''NER.02.CP'', indicator_desc = ''d'',
        obs_year = 2010, obs_value = 10\<rparr>]"
  by code_simp

text \<open>
  C6. For every observation row and every metadata row whose key is the normalised id
  of the observation, the merged table has the observation joined with that metadata
  row, and its label is the label of the metadata row. An observation row whose
  normalised id is the key of no metadata row is in the merged table with a missing
  label. Conversely, a label in the merged table is the label of a metadata row of the
  same key, and a missing label means that no metadata row has the key.
\<close>

theorem load_data_labels:
  "(\<forall>row \<in> set data. \<forall>m \<in> set metadata.
      meta_INDICATOR_ID m = strip (upper (indicator_id row)) \<longrightarrow>
        joined (normalize_key (drop_and_rename row)) m \<in> set (load_data data metadata) \<and>
        INDICATOR_LABEL_EN (joined (normalize_key (drop_and_rename row)) m)
          = Some (meta_INDICATOR_LABEL_EN m)) \<and>
   (\<forall>row \<in> set data.
      (\<forall>m \<in> set metadata. meta_INDICATOR_ID m \<noteq> strip (upper (indicator_id row))) \<longrightarrow>
        unmatched (normalize_key (drop_and_rename row)) \<in> set (load_data data metadata) \<and>
        INDICATOR_LABEL_EN (unmatched (normalize_key (drop_and_rename row))) = None) \<and>
   (\<forall>r \<in> set (load_data data metadata).
      case INDICATOR_LABEL_EN r of
        Some l \<Rightarrow> \<exists>m \<in> set metadata.
                   meta_INDICATOR_ID m = INDICATOR_ID r \<and> meta_INDICATOR_LABEL_EN m = l
      | None \<Rightarrow> \<forall>m \<in> set metadata. meta_INDICATOR_ID m \<noteq> INDICATOR_ID r)"
proof (intro conjI ballI impI)
  fix row m
  assume row: "row \<in> set data" and m: "m \<in> set metadata"
    and key: "meta_INDICATOR_ID m = strip (upper (indicator_id row))"
  let ?d = "normalize_key (drop_and_rename row)"
  from m key have "m \<in> set (partners metadata ?d)"
    by (simp add: set_partners INDICATOR_ID_prepared)
  then have "joined ?d m \<in> set (merge_row metadata ?d)"
    by (auto simp: set_merge_row)
  with row show "joined ?d m \<in> set (load_data data metadata)"
    by (auto simp: set_load_data)
  show "INDICATOR_LABEL_EN (joined ?d m) = Some (meta_INDICATOR_LABEL_EN m)"
    by (simp add: joined_def)
next
  fix row
  assume row: "row \<in> set data"
    and none: "\<forall>m \<in> set metadata. meta_INDICATOR_ID m \<noteq> strip (upper (indicator_id row))"
  let ?d = "normalize_key (drop_and_rename row)"
  from none have "partners metadata ?d = []"
    by (simp add: partners_Nil_iff INDICATOR_ID_prepared)
  then have "unmatched ?d \<in> set (merge_row metadata ?d)"
    by (simp add: set_merge_row)
  with row show "unmatched ?d \<in> set (load_data data metadata)"
    by (auto simp: set_load_data)
  show "INDICATOR_LABEL_EN (unmatched ?d) = None"
    by (simp add: unmatched_def)
next
  fix r
  assume "r \<in> set (load_data data metadata)"
  then obtain row where "row \<in> set data"
    and r: "r \<in> set (merge_row metadata (normalize_key (drop_and_rename row)))"
    by (auto simp: set_load_data)
  from merge_row_label [OF r]
  show "case INDICATOR_LABEL_EN r of
          Some l \<Rightarrow> \<exists>m \<in> set metadata.
                     meta_INDICATOR_ID m = INDICATOR_ID r \<and> meta_INDICATOR_LABEL_EN m = l
        | None \<Rightarrow> \<forall>m \<in> set metadata. meta_INDICATOR_ID m \<noteq> INDICATOR_ID r"
    by (simp split: option.splits)
qed

text \<open>
  An instance: in the example tables the first observation finds its metadata, the second
  has none.
\<close>

theorem load_data_labels_witness:
  "meta_INDICATOR_ID \<lparr>meta_INDICATOR_ID = ''NER.02.CP'',
        meta_INDICATOR_LABEL_EN = ''Net enrolment rate'', meta_other = []\<rparr>
     = strip (upper '' ner.02.cp'') \<and>
   joined (normalize_key (drop_and_rename
        \<lparr>obs_country_id = ''NPL'', indicator_id = '' ner.02.cp'', indicator_desc = ''text'',
         obs_year = 2010, obs_value = 10\<rparr>))
      \<lparr>meta_INDICATOR_ID = ''NER.02.CP'', meta_INDICATOR_LABEL_EN = ''Net enrolment rate'',
       meta_other = []\<rparr>
     \<in> set (load_data example_data example_metadata) \<and>
   unmatched (normalize_key (drop_and_rename
        \<lparr>obs_country_id = ''NPL'', indicator_id = ''XGDP.FSGOV'', indicator_desc = ''text'',
         obs_year = 2011, obs_value = 4\<rparr>))
     \<in> set (load_data example_data example_metadata)"
  using load_data_labels [of example_data example_metadata]
  by (simp add: normalised_examples)

section \<open>The queries\<close>




























section \<open>The country pages\<close>








section \<open>The table is never written\<close>

lemma fst_create_line_chart: "fst (create_line_chart_with_selection c inp s) = s"
  by (simp add: create_line_chart_with_selection_def Let_def split: sum.split)

lemma fst_country_page: "fst (country_page title c inp s) = s"
proof -
  obtain s' res where eq: "create_line_chart_with_selection c inp s = (s', res)"
    by (cases "create_line_chart_with_selection c inp s")
  with fst_create_line_chart [of c inp s] have "s' = s" by simp
  with eq show ?thesis
    by (simp add: country_page_def split: sum.split prod.split)
qed

lemma fst_show_cross: "fst (show_cross inp s) = s"
  by (simp add: show_cross_def Let_def split: option.split)

lemma label_data_goto: "label_data (goto p s) = label_data s"
  by (simp add: goto_def)

lemma label_data_show_home: "label_data (fst (show_home inp s)) = label_data s"
  by (simp add: show_home_def Let_def label_data_goto)

lemma label_data_show_individual: "label_data (fst (show_individual inp s)) = label_data s"
  by (simp add: show_individual_def Let_def label_data_goto)

lemma label_data_show_back_button: "label_data (fst (show_back_button inp s)) = label_data s"
  by (simp add: show_back_button_def split: option.split)

lemma fst_sequence:
  "fst (case x of (s, Inl e) \<Rightarrow> (s, Inl e) | (s, Inr drawn) \<Rightarrow> (s, Inr (f drawn))) = fst x"
  by (simp split: prod.split sum.split)

lemma label_data_main: "label_data (fst (main inp s)) = label_data s"
proof -
  define s1 where "s1 = (if page s = None then s\<lparr>page := Some ''home''\<rparr> else s)"
  have l1: "label_data s1 = label_data s" by (simp add: s1_def)
  obtain s2 res where bb: "show_back_button inp s1 = (s2, res)"
    by (cases "show_back_button inp s1")
  with label_data_show_back_button [of inp s1] l1 have l2: "label_data s2 = label_data s"
    by simp
  show ?thesis
  proof (cases res)
    case (Inl e)
    with bb l2 show ?thesis by (simp add: main_def s1_def [symmetric])
  next
    case (Inr drawn)
    with bb l2 show ?thesis
      by (simp add: main_def s1_def [symmetric] fst_sequence label_data_show_home
          label_data_show_individual fst_show_cross show_nepal_def show_estonia_def
          show_sierra_leone_def show_usa_def fst_country_page)
  qed
qed

text \<open>
  C10. The function that selects the rows of a country, the four country pages and the
  cross-country page, with all that they compute from the table, return the state they
  were given; and a whole run of \<^verbatim>\<open>main\<close>, whatever the user did, leaves \<^verbatim>\<open>label_data\<close>
  as it was. The script assigns \<^verbatim>\<open>label_data\<close> at line 62 only, and its two pandas
  operations in place (lines 53 and 54) act on the local table of \<^verbatim>\<open>load_data\<close> before
  the join; indexing by a condition, \<^verbatim>\<open>drop_duplicates\<close>, \<^verbatim>\<open>sort_values\<close> and
  \<^verbatim>\<open>groupby\<close> return new tables.
\<close>

theorem queries_leave_label_data:
  "fst (create_line_chart_with_selection country_code inp s) = s \<and>
   fst (show_nepal inp s) = s \<and> fst (show_estonia inp s) = s \<and>
   fst (show_sierra_leone inp s) = s \<and> fst (show_usa inp s) = s \<and>
   fst (show_cross inp s) = s \<and>
   label_data (fst (main inp s)) = label_data s"
  by (simp add: fst_create_line_chart fst_show_cross label_data_main fst_country_page
      show_nepal_def show_estonia_def show_sierra_leone_def show_usa_def)

section \<open>Navigation\<close>



lemma page_goto: "page (goto p s) = Some p"
  by (simp add: goto_def)

lemma main_unknown_page:
  assumes "p \<notin> set known_pages"
  shows "main inp (goto p s) =
           (goto p s,
            if clicked inp = Some ''Go Back'' then Inl (KeyError p) else Inr [Button ''Go Back''])"
  using assms
  by (simp add: main_def show_back_button_def st_button_def PARENTS_def goto_def known_pages_def)

lemma known_update: "q \<in> set known_pages \<Longrightarrow> on_known_page (s\<lparr>page := Some q\<rparr>)"
  by (simp add: on_known_page_def)

lemma known_goto: "p \<in> set known_pages \<Longrightarrow> on_known_page (goto p s)"
  by (simp add: on_known_page_def goto_def)

lemma known_show_home: "on_known_page s \<Longrightarrow> on_known_page (fst (show_home inp s))"
  by (simp add: show_home_def Let_def known_goto known_pages_def)

lemma known_show_individual: "on_known_page s \<Longrightarrow> on_known_page (fst (show_individual inp s))"
  by (simp add: show_individual_def Let_def known_goto known_pages_def)

lemma known_show_back_button:
  assumes "on_known_page s"
  shows "on_known_page (fst (show_back_button inp s))"
proof -
  from assms obtain q where q: "q \<in> set known_pages" and p: "page s = Some q"
    by (auto simp: on_known_page_def split: option.splits)
  show ?thesis
  proof (cases "map_of PARENTS q")
    case None
    with p assms show ?thesis by (simp add: show_back_button_def)
  next
    case (Some parent)
    then have "(q, parent) \<in> set PARENTS" by (rule map_of_SomeD)
    then have "parent \<in> set known_pages" by (auto simp: PARENTS_def known_pages_def)
    with Some p assms show ?thesis by (simp add: show_back_button_def known_update)
  qed
qed

lemma known_main:
  assumes "page s = None \<or> on_known_page s"
  shows "on_known_page (fst (main inp s))"
proof -
  define s1 where "s1 = (if page s = None then s\<lparr>page := Some ''home''\<rparr> else s)"
  from assms have k1: "on_known_page s1"
    by (auto simp: s1_def on_known_page_def known_pages_def)
  obtain s2 res where bb: "show_back_button inp s1 = (s2, res)"
    by (cases "show_back_button inp s1")
  with known_show_back_button [OF k1, of inp] have k2: "on_known_page s2"
    by simp
  show ?thesis
  proof (cases res)
    case (Inl e)
    with bb k2 show ?thesis by (simp add: main_def s1_def [symmetric])
  next
    case (Inr drawn)
    with bb k2 show ?thesis
      by (simp add: main_def s1_def [symmetric] fst_sequence known_show_home
          known_show_individual fst_show_cross show_nepal_def show_estonia_def
          show_sierra_leone_def show_usa_def fst_country_page)
  qed
qed

text \<open>
  C9. The assignment of a page checks nothing: the page becomes whatever is assigned.
  On a page outside the seven that \<^verbatim>\<open>main\<close> draws, a run draws the back button only and
  raises nothing, unless the back button was pressed, in which case \<^verbatim>\<open>PARENTS\<close> has no
  entry and \<^verbatim>\<open>KeyError\<close> is raised. From the first run, and from every one of the seven
  pages, a run ends on one of the seven pages, whatever the user did.
\<close>

theorem goto_without_validation:
  "page (goto p s) = Some p \<and>
   (p \<notin> set known_pages \<longrightarrow>
      main inp (goto p s) =
        (goto p s,
         if clicked inp = Some ''Go Back'' then Inl (KeyError p) else Inr [Button ''Go Back''])) \<and>
   (page s = None \<or> on_known_page s \<longrightarrow> on_known_page (fst (main inp s)))"
  using page_goto [of p s] main_unknown_page [of p inp s] known_main [of s inp]
  by blast

text \<open>
  An instance: \<^verbatim>\<open>Mars\<close> is no page of the application; pressing the back button there
  raises \<^verbatim>\<open>KeyError\<close>, and pressing it on \<^verbatim>\<open>individual\<close> leaves a known page.
\<close>

theorem goto_without_validation_witness:
  "''Mars'' \<notin> set known_pages \<and>
   main \<lparr>clicked = Some ''Go Back'', multiselect_value = [], selectbox_value = ''NER.02.CP''\<rparr>
        (goto ''Mars'' \<lparr>label_data = [], page = Some ''individual''\<rparr>)
     = (goto ''Mars'' \<lparr>label_data = [], page = Some ''individual''\<rparr>, Inl (KeyError ''Mars'')) \<and>
   on_known_page \<lparr>label_data = [], page = Some ''individual''\<rparr> \<and>
   on_known_page (fst (main
      \<lparr>clicked = Some ''Go Back'', multiselect_value = [], selectbox_value = ''NER.02.CP''\<rparr>
      \<lparr>label_data = [], page = Some ''individual''\<rparr>))"
  using goto_without_validation
    [of "''Mars''" "\<lparr>label_data = [], page = Some ''individual''\<rparr>"
        "\<lparr>clicked = Some ''Go Back'', multiselect_value = [], selectbox_value = ''NER.02.CP''\<rparr>"]
  by (simp add: known_pages_def on_known_page_def)

text \<open>
  An unknown page is accepted without any error: after \<^verbatim>\<open>Mars\<close> is assigned, the next
  run ends normally, having drawn the back button.
\<close>

theorem goto_unknown_page_counterexample:
  "''Mars'' \<notin> set known_pages \<and>
   goto ''Mars'' \<lparr>label_data = [], page = Some ''home''\<rparr> = \<lparr>label_data = [], page = Some ''Mars''\<rparr> \<and>
   main \<lparr>clicked = None, multiselect_value = [], selectbox_value = ''NER.02.CP''\<rparr>
        (goto ''Mars'' \<lparr>label_data = [], page = Some ''home''\<rparr>)
     = (\<lparr>label_data = [], page = Some ''Mars''\<rparr>, Inr [Button ''Go Back''])"
  by (simp add: main_def show_back_button_def st_button_def PARENTS_def goto_def known_pages_def)

end
